theory Spec2Isabelle
  imports Main "HOL-Library.AList" "HOL-Library.Sublist"
begin

section \<open>The video generator's HTTP wrapper (app.py)\<close>

text \<open>
  The wrapper validates a request, resolves API keys, computes the character reference
  images the scenes need and delegates to three generation functions of the module
  \<^verbatim>\<open>generate\<close>, which is not part of the sources. Every function of app.py is
  embedded below under its own name; Python's leading underscore is dropped
  (\<^verbatim>\<open>_resolve_api_key\<close> is \<open>resolve_api_key\<close>), since an identifier cannot start
  with one here.
\<close>

subsection \<open>Values\<close>

text \<open>
  A Python float: a finite double with the value \<open>m * 2 ^ e\<close> is \<open>Finite m e\<close> (both
  zeros are \<open>Finite 0 e\<close>), \<open>Infinite s\<close> is the infinity of sign \<open>s\<close>. \<^verbatim>\<open>json.loads\<close>
  accepts \<^verbatim>\<open>NaN\<close>, \<^verbatim>\<open>Infinity\<close> and \<^verbatim>\<open>-Infinity\<close>.
\<close>

datatype pyfloat =
    Finite int int
  | Infinite bool
  | NaN

text \<open>
  What \<^verbatim>\<open>json.loads\<close> returns: \<open>JNull\<close> is Python's \<^verbatim>\<open>None\<close>, \<open>JObject\<close> holds
  the items of the decoded dict in insertion order (its keys are distinct, as a dict's
  are). The code looks at a number only through its truth value.
\<close>

datatype json =
    JNull
  | JBool bool
  | JInt int
  | JFloat pyfloat
  | JString string
  | JArray "json list"
  | JObject "(string \<times> json) list"

text \<open>Python's truth value of a decoded value, as \<^verbatim>\<open>or\<close> and \<^verbatim>\<open>not\<close> test it.\<close>

fun truthy :: "json \<Rightarrow> bool" where
  "truthy JNull = False"
| "truthy (JBool b) = b"
| "truthy (JInt n) = (n \<noteq> 0)"
| "truthy (JFloat (Finite m e)) = (m \<noteq> 0)"
| "truthy (JFloat (Infinite s)) = True"
| "truthy (JFloat NaN) = True"
| "truthy (JString s) = (s \<noteq> [])"
| "truthy (JArray xs) = (xs \<noteq> [])"
| "truthy (JObject kvs) = (kvs \<noteq> [])"

text \<open>The name Python prints for the type of a decoded value.\<close>

fun type_name :: "json \<Rightarrow> string" where
  "type_name JNull = ''NoneType''"
| "type_name (JBool b) = ''bool''"
| "type_name (JInt n) = ''int''"
| "type_name (JFloat x) = ''float''"
| "type_name (JString s) = ''str''"
| "type_name (JArray xs) = ''list''"
| "type_name (JObject kvs) = ''dict''"

text \<open>
  A \<^verbatim>\<open>Dict[str, str]\<close> is an association list in insertion order with distinct keys;
  \<^verbatim>\<open>d[k] = v\<close> is \<open>AList.update k v d\<close> (the value is replaced in place when the key
  is there, the pair is appended otherwise) and \<^verbatim>\<open>k in d\<close> is \<open>map_of d k \<noteq> None\<close>.
  A \<^verbatim>\<open>Path\<close> is modelled by its \<^verbatim>\<open>str()\<close> form.
\<close>

type_synonym dict = "(string \<times> string) list"

type_synonym path = string

subsection \<open>Request and response models\<close>

record character_design =
  character_name :: string
  image_generation_prompt :: string

record scene =
  scene_number :: int
  scene_type :: string
  duration_seconds :: int
  start_frame_prompt :: string
  end_frame_prompt :: string
  video_prompt :: string
  reference_images :: "string list"

text \<open>
  The three request models share field names; the fields of each carry a prefix here
  (\<open>cr_\<close>, \<open>sv_\<close>, \<open>tr_\<close>). An \<^verbatim>\<open>Optional[str]\<close> is a \<open>string option\<close>.
\<close>

record character_reference_request =
  cr_character_designs :: "character_design list"
  cr_image_api_key :: "string option"

record scene_video_request =
  sv_scenes :: "scene list"
  sv_image_api_key :: "string option"
  sv_veo_api_key :: "string option"
  sv_character_refs :: "dict option"
  sv_autoload_refs :: bool

record trailer_generation_request =
  tr_character_designs :: "character_design list"
  tr_scenes :: "scene list"
  tr_image_api_key :: "string option"
  tr_veo_api_key :: "string option"
  tr_stitch_trailer :: bool

datatype response =
    CharacterReferenceResponse dict
  | SceneVideoResponse "string list"
  | TrailerGenerationResponse dict "string list" "string option"

subsection \<open>Failures and the environment\<close>

text \<open>
  An exception that a library call raises: its class name and its message.
\<close>

datatype exception = Exception (exc_class: string) (exc_message: string)

text \<open>
  \<open>HTTPException\<close> is what the wrapper raises itself. \<open>AttributeError\<close> is the Python
  exception of a method call on a value that has no such method; its argument is the
  message. \<open>Uncaught\<close> is an exception of a library call (\<^verbatim>\<open>Path.exists\<close>,
  \<^verbatim>\<open>Path.read_text\<close>, \<^verbatim>\<open>json.loads\<close>) for which the wrapper has no handler. Neither
  of the last two is caught anywhere in app.py, so each leaves the function, and the
  handler, as it is.
\<close>

datatype error =
    HTTPException (status_code: nat) (detail: string)
  | AttributeError string
  | Uncaught exception

text \<open>
  The state of \<^verbatim>\<open>secret.json\<close> when it is read: \<^verbatim>\<open>exists()\<close> returns false; or
  \<^verbatim>\<open>json.loads\<close> raises \<^verbatim>\<open>JSONDecodeError\<close> (the argument is \<^verbatim>\<open>str(exc)\<close>); or
  one of \<^verbatim>\<open>exists()\<close>, \<^verbatim>\<open>read_text()\<close> and \<^verbatim>\<open>json.loads\<close> raises another
  exception (\<^verbatim>\<open>UnicodeDecodeError\<close> for bytes that are not UTF-8, \<^verbatim>\<open>ValueError\<close> for
  an integer of more than 4300 digits, \<^verbatim>\<open>RecursionError\<close>, \<^verbatim>\<open>IsADirectoryError\<close>,
  \<^verbatim>\<open>PermissionError\<close>), which the clause \<^verbatim>\<open>except json.JSONDecodeError\<close> does not
  catch; or \<^verbatim>\<open>json.loads\<close> returns a value.
\<close>

datatype secret_file =
    Missing
  | Undecodable string
  | ReadFails exception
  | Decoded json

text \<open>
  What a request reads from outside: the secret file, the constant \<^verbatim>\<open>OUTPUT_DIR\<close>
  of the module \<^verbatim>\<open>generate\<close>, pathlib's \<^verbatim>\<open>/\<close> operator and \<^verbatim>\<open>Path.exists\<close>.
  The last three are parameters: their code is not in the sources. \<^verbatim>\<open>Path.exists\<close>
  returns a truth value or raises (\<^verbatim>\<open>OSError\<close> for a file name that is too long or a
  directory that may not be searched).
\<close>

record env =
  secret_json :: secret_file
  OUTPUT_DIR :: path
  joinpath :: "path \<Rightarrow> string \<Rightarrow> path"
  path_exists :: "path \<Rightarrow> exception + bool"

subsection \<open>Secret loader and key resolver\<close>

definition load_default_api_key :: "env \<Rightarrow> error + json" where
  "load_default_api_key e =
     (case secret_json e of
        Missing \<Rightarrow> Inr JNull
      | Undecodable exc \<Rightarrow> Inl (HTTPException 500 (''Invalid secret.json format: '' @ exc))
      | ReadFails exc \<Rightarrow> Inl (Uncaught exc)
      | Decoded payload \<Rightarrow>
          (case payload of
             JObject kvs \<Rightarrow>
               Inr (case map_of kvs ''project_api_key'' of None \<Rightarrow> JNull | Some v \<Rightarrow> v)
           | _ \<Rightarrow>
               Inl (AttributeError
                 ([CHR 0x27] @ type_name payload @ [CHR 0x27]
                    @ '' object has no attribute '' @ [CHR 0x27] @ ''get'' @ [CHR 0x27]))))"

text \<open>
  \<^verbatim>\<open>provided or _load_default_api_key()\<close>: the loader runs only when \<open>provided\<close> is
  \<^verbatim>\<open>None\<close> or the empty string.
\<close>

definition resolve_api_key :: "env \<Rightarrow> string option \<Rightarrow> string \<Rightarrow> error + json" where
  "resolve_api_key e provided key_name =
     (case (case provided of
              Some k \<Rightarrow> if k \<noteq> [] then Inr (JString k) else load_default_api_key e
            | None \<Rightarrow> load_default_api_key e) of
        Inl err \<Rightarrow> Inl err
      | Inr api_key \<Rightarrow>
          if \<not> truthy api_key
          then Inl (HTTPException 400
                 (key_name @ '' is required. Provide it in the request body or secret.json.''))
          else Inr api_key)"

subsection \<open>Reference collector\<close>

text \<open>
  The two nested loops of \<^verbatim>\<open>_collect_referenced_characters\<close>, over the state
  \<open>(referenced, seen)\<close>.
\<close>

fun collect_scene :: "string list \<Rightarrow> string list \<times> string set \<Rightarrow> string list \<times> string set" where
  "collect_scene [] (referenced, seen) = (referenced, seen)"
| "collect_scene (character # rest) (referenced, seen) =
     (if character \<notin> seen
      then collect_scene rest (referenced @ [character], insert character seen)
      else collect_scene rest (referenced, seen))"

fun collect_scenes :: "scene list \<Rightarrow> string list \<times> string set \<Rightarrow> string list \<times> string set" where
  "collect_scenes [] st = st"
| "collect_scenes (sc # rest) st = collect_scenes rest (collect_scene (reference_images sc) st)"

definition collect_referenced_characters :: "scene list \<Rightarrow> string list" where
  "collect_referenced_characters scenes = fst (collect_scenes scenes ([], {}))"

subsection \<open>Reference map builder\<close>

text \<open>\<^verbatim>\<open>sep.join(xs)\<close>.\<close>

fun join :: "string \<Rightarrow> string list \<Rightarrow> string" where
  "join sep [] = []"
| "join sep [x] = x"
| "join sep (x # y # ys) = x @ sep @ join sep (y # ys)"

text \<open>\<^verbatim>\<open>OUTPUT_DIR / "refs" / f"{character}.png"\<close>.\<close>

definition ref_path :: "env \<Rightarrow> string \<Rightarrow> path" where
  "ref_path e character = joinpath e (joinpath e (OUTPUT_DIR e) ''refs'') (character @ ''.png'')"

text \<open>
  The loop of the auto-load branch, over the dict \<open>refs\<close>. An exception of
  \<^verbatim>\<open>ref_path.exists()\<close> ends the loop and the function.
\<close>

fun autoload_loop :: "env \<Rightarrow> string list \<Rightarrow> dict \<Rightarrow> error + dict" where
  "autoload_loop e [] refs = Inr refs"
| "autoload_loop e (character # rest) refs =
     (case path_exists e (ref_path e character) of
        Inl exc \<Rightarrow> Inl (Uncaught exc)
      | Inr found \<Rightarrow>
          if \<not> found
          then Inl (HTTPException 400
                 (''Reference image not found for '' @ [CHR 0x27] @ character @ [CHR 0x27]
                    @ '' at '' @ ref_path e character))
          else autoload_loop e rest (AList.update character (ref_path e character) refs))"

text \<open>
  \<^verbatim>\<open>if provided_refs:\<close> holds for a dict with at least one item; \<^verbatim>\<open>None\<close> and the
  empty dict take the second equation.
\<close>

fun build_character_ref_map :: "env \<Rightarrow> scene list \<Rightarrow> dict option \<Rightarrow> bool \<Rightarrow> error + dict" where
  "build_character_ref_map e scenes (Some (item # items)) autoload_refs =
     (let provided_refs = item # items;
          provided_missing =
            filter (\<lambda>char. map_of provided_refs char = None)
              (collect_referenced_characters scenes)
      in if provided_missing \<noteq> []
         then Inl (HTTPException 400
                (''Missing reference paths for: '' @ join '', '' provided_missing))
         else Inr provided_refs)"
| "build_character_ref_map e scenes _ autoload_refs =
     (if \<not> autoload_refs
      then (let referenced = collect_referenced_characters scenes
            in if referenced \<noteq> []
               then Inl (HTTPException 400
                      ''Reference images required but no character_refs provided.'')
               else Inr [])
      else autoload_loop e (collect_referenced_characters scenes) [])"

subsection \<open>Delegates\<close>

text \<open>
  The three functions of the module \<^verbatim>\<open>generate\<close> are parameters. A delegate
  returns its result or raises: \<open>ValueError\<close> is an exception the clause
  \<^verbatim>\<open>except ValueError\<close> catches, \<open>OtherException\<close> any other exception derived from
  \<^verbatim>\<open>Exception\<close>; the argument is \<^verbatim>\<open>str(exc)\<close>.
\<close>

datatype delegate_failure =
    ValueError (message: string)
  | OtherException (message: string)

record delegates =
  generate_character_references ::
    "json \<Rightarrow> character_design list \<Rightarrow> delegate_failure + dict"
  generate_scene_videos ::
    "json \<Rightarrow> json \<Rightarrow> scene list \<Rightarrow> dict \<Rightarrow> delegate_failure + path list"
  stitch_videos :: "path list \<Rightarrow> delegate_failure + path"

text \<open>
  A handler returns, with its result, the delegate calls it made, in order, each with
  the arguments it passed.
\<close>

datatype call =
    CharacterReferencesCall json "character_design list"
  | SceneVideosCall json json "scene list" dict
  | StitchCall "path list"

subsection \<open>Route handlers\<close>

text \<open>\<^verbatim>\<open>a or b\<close> on two optional strings.\<close>

definition or_else :: "string option \<Rightarrow> string option \<Rightarrow> string option" where
  "or_else a b = (case a of Some k \<Rightarrow> if k \<noteq> [] then Some k else b | None \<Rightarrow> b)"

definition create_character_references ::
  "env \<Rightarrow> delegates \<Rightarrow> character_reference_request \<Rightarrow> call list \<times> (error + response)" where
  "create_character_references e d request =
     (case resolve_api_key e (cr_image_api_key request) ''image_api_key'' of
        Inl err \<Rightarrow> ([], Inl err)
      | Inr image_api_key \<Rightarrow>
          ([CharacterReferencesCall image_api_key (cr_character_designs request)],
           (case generate_character_references d image_api_key (cr_character_designs request) of
              Inl (ValueError exc) \<Rightarrow> Inl (HTTPException 400 exc)
            | Inl (OtherException exc) \<Rightarrow> Inl (HTTPException 500 exc)
            | Inr character_refs \<Rightarrow> Inr (CharacterReferenceResponse character_refs))))"

definition create_scene_videos ::
  "env \<Rightarrow> delegates \<Rightarrow> scene_video_request \<Rightarrow> call list \<times> (error + response)" where
  "create_scene_videos e d request =
     (case resolve_api_key e (sv_image_api_key request) ''image_api_key'' of
        Inl err \<Rightarrow> ([], Inl err)
      | Inr image_api_key \<Rightarrow>
     (case resolve_api_key e (or_else (sv_veo_api_key request) (sv_image_api_key request))
             ''veo_api_key'' of
        Inl err \<Rightarrow> ([], Inl err)
      | Inr veo_api_key \<Rightarrow>
     (case build_character_ref_map e (sv_scenes request) (sv_character_refs request)
             (sv_autoload_refs request) of
        Inl err \<Rightarrow> ([], Inl err)
      | Inr character_refs \<Rightarrow>
          ([SceneVideosCall image_api_key veo_api_key (sv_scenes request) character_refs],
           (case generate_scene_videos d image_api_key veo_api_key (sv_scenes request)
                   character_refs of
              Inl (ValueError exc) \<Rightarrow> Inl (HTTPException 400 exc)
            | Inl (OtherException exc) \<Rightarrow> Inl (HTTPException 500 exc)
            | Inr videos \<Rightarrow> Inr (SceneVideoResponse videos))))))"

text \<open>
  The body of the \<^verbatim>\<open>try\<close> block of \<^verbatim>\<open>generate_trailer\<close>: the first delegate that
  raises ends it. \<open>trailer_path\<close> stays \<^verbatim>\<open>None\<close> when stitching is not requested; a
  \<^verbatim>\<open>Path\<close> is always true in Python, so the response's
  \<^verbatim>\<open>str(trailer_path) if trailer_path else None\<close> keeps the path exactly when
  stitching ran.
\<close>

definition trailer_body ::
  "delegates \<Rightarrow> json \<Rightarrow> json \<Rightarrow> trailer_generation_request
     \<Rightarrow> call list \<times> (delegate_failure + dict \<times> path list \<times> path option)" where
  "trailer_body d image_api_key veo_api_key request =
     (let c1 = CharacterReferencesCall image_api_key (tr_character_designs request)
      in case generate_character_references d image_api_key (tr_character_designs request) of
           Inl exc \<Rightarrow> ([c1], Inl exc)
         | Inr character_refs \<Rightarrow>
     (let c2 = SceneVideosCall image_api_key veo_api_key (tr_scenes request) character_refs
      in case generate_scene_videos d image_api_key veo_api_key (tr_scenes request)
                character_refs of
           Inl exc \<Rightarrow> ([c1, c2], Inl exc)
         | Inr scene_paths \<Rightarrow>
             if tr_stitch_trailer request
             then (case stitch_videos d scene_paths of
                     Inl exc \<Rightarrow> ([c1, c2, StitchCall scene_paths], Inl exc)
                   | Inr trailer_path \<Rightarrow>
                       ([c1, c2, StitchCall scene_paths],
                        Inr (character_refs, scene_paths, Some trailer_path)))
             else ([c1, c2], Inr (character_refs, scene_paths, None))))"

definition generate_trailer ::
  "env \<Rightarrow> delegates \<Rightarrow> trailer_generation_request \<Rightarrow> call list \<times> (error + response)" where
  "generate_trailer e d request =
     (case resolve_api_key e (tr_image_api_key request) ''image_api_key'' of
        Inl err \<Rightarrow> ([], Inl err)
      | Inr image_api_key \<Rightarrow>
     (case resolve_api_key e (or_else (tr_veo_api_key request) (tr_image_api_key request))
             ''veo_api_key'' of
        Inl err \<Rightarrow> ([], Inl err)
      | Inr veo_api_key \<Rightarrow>
     (case trailer_body d image_api_key veo_api_key request of
        (calls, Inl (ValueError exc)) \<Rightarrow> (calls, Inl (HTTPException 400 exc))
      | (calls, Inl (OtherException exc)) \<Rightarrow> (calls, Inl (HTTPException 500 exc))
      | (calls, Inr (character_refs, scene_paths, trailer_path)) \<Rightarrow>
          (calls, Inr (TrailerGenerationResponse character_refs scene_paths trailer_path)))))"

subsection \<open>Concrete inputs\<close>

text \<open>
  Inputs at which the theorems below are instantiated: a scene that only sets its number
  and its references, and an environment over POSIX-style paths under \<^verbatim>\<open>output\<close>
  with a given secret file and a given set of existing files. In \<open>env_of\<close> every
  existence check returns; in \<open>env_name_max\<close> it raises \<^verbatim>\<open>OSError\<close> (errno 36) when
  the last component of the path has more than 255 characters, as Linux does.
\<close>

definition scene_of :: "int \<Rightarrow> string list \<Rightarrow> scene" where
  "scene_of n refs =
     \<lparr>scene_number = n, scene_type = ''action'', duration_seconds = 8,
      start_frame_prompt = [], end_frame_prompt = [], video_prompt = [],
      reference_images = refs\<rparr>"

definition env_of :: "secret_file \<Rightarrow> path list \<Rightarrow> env" where
  "env_of secret files =
     \<lparr>secret_json = secret, OUTPUT_DIR = ''output'',
      joinpath = (\<lambda>p s. p @ ''/'' @ s),
      path_exists = (\<lambda>p. Inr (p \<in> set files))\<rparr>"

definition env_name_max :: "secret_file \<Rightarrow> path list \<Rightarrow> env" where
  "env_name_max secret files =
     \<lparr>secret_json = secret, OUTPUT_DIR = ''output'',
      joinpath = (\<lambda>p s. p @ ''/'' @ s),
      path_exists =
        (\<lambda>p. if 255 < length (takeWhile (\<lambda>c. c \<noteq> CHR ''/'') (rev p))
             then Inl (Exception ''OSError'' ''[Errno 36] File name too long'')
             else Inr (p \<in> set files))\<rparr>"

text \<open>
  Modelled from the spec: the three delegates of the module \<^verbatim>\<open>generate\<close>, whose code
  is not in the sources, as section 6 of the spec describes them. Reference generation
  maps each design's name to \<^verbatim>\<open>output/refs/<name>.png\<close> (the paths test.py builds);
  scene-video generation fails with an input-validation error when a scene references a
  character that the map lacks; stitching fails on an empty list.
\<close>

definition contract_delegates :: delegates where
  "contract_delegates =
     \<lparr>generate_character_references =
        (\<lambda>image_api_key designs.
           Inr (map (\<lambda>dsg. (character_name dsg, ''output/refs/'' @ character_name dsg @ ''.png''))
                  designs)),
      generate_scene_videos =
        (\<lambda>image_api_key veo_api_key scenes character_refs.
           if \<exists>sc \<in> set scenes. \<exists>ch \<in> set (reference_images sc). map_of character_refs ch = None
           then Inl (ValueError ''scene references an unmapped character'')
           else Inr (map (\<lambda>sc. ''output/scenes/scene.mp4'') scenes)),
      stitch_videos =
        (\<lambda>video_paths.
           if video_paths = [] then Inl (OtherException ''no videos to stitch'')
           else Inr ''output/trailer_no_audio.mp4'')\<rparr>"

text \<open>Delegates that all raise the same given exception.\<close>

definition failing_delegates :: "delegate_failure \<Rightarrow> delegates" where
  "failing_delegates exc =
     \<lparr>generate_character_references = (\<lambda>image_api_key designs. Inl exc),
      generate_scene_videos = (\<lambda>image_api_key veo_api_key scenes character_refs. Inl exc),
      stitch_videos = (\<lambda>video_paths. Inl exc)\<rparr>"

section \<open>Properties\<close>

subsection \<open>The collector keeps first occurrences\<close>

lemma collect_scene_eq:
  "collect_scene cs (rev (remdups (rev r0)), set r0)
     = (rev (remdups (rev (r0 @ cs))), set (r0 @ cs))"
proof (induction cs arbitrary: r0)
  case Nil
  show ?case by simp
next
  case (Cons c cs)
  have step: "collect_scene (c # cs) (rev (remdups (rev r0)), set r0)
      = collect_scene cs (rev (remdups (rev (r0 @ [c]))), set (r0 @ [c]))"
    by (auto simp: insert_absorb)
  show ?case
    unfolding step Cons.IH by simp
qed

lemma collect_scenes_eq:
  "collect_scenes scs (rev (remdups (rev r0)), set r0)
     = (rev (remdups (rev (r0 @ concat (map reference_images scs)))),
        set (r0 @ concat (map reference_images scs)))"
proof (induction scs arbitrary: r0)
  case Nil
  show ?case by simp
next
  case (Cons sc scs)
  show ?case
    using Cons.IH [of "r0 @ reference_images sc"] by (simp add: collect_scene_eq)
qed

lemma collect_closed_form:
  "collect_referenced_characters scenes
     = rev (remdups (rev (concat (map reference_images scenes))))"
  using collect_scenes_eq [of scenes "[]"] by (simp add: collect_referenced_characters_def)

lemma collect_set:
  "set (collect_referenced_characters scenes) = set (concat (map reference_images scenes))"
  by (simp add: collect_closed_form)

lemma collect_distinct: "distinct (collect_referenced_characters scenes)"
  by (simp add: collect_closed_form)

lemma collect_Nil_iff:
  "(collect_referenced_characters scenes = []) = (concat (map reference_images scenes) = [])"
  using collect_set [of scenes] by (metis set_empty)

text \<open>
  The position of the first occurrence of \<open>c\<close> in \<open>xs\<close> is the length of the longest
  prefix of \<open>xs\<close> without \<open>c\<close>.
\<close>

lemma first_index_less:
  "c \<in> set xs \<Longrightarrow> length (takeWhile (\<lambda>y. y \<noteq> c) xs) < length xs"
  by (induction xs) auto

lemma first_index_fresh:
  "x \<notin> set xs \<Longrightarrow> length (takeWhile (\<lambda>y. y \<noteq> x) (xs @ [x])) = length xs"
  by (induction xs) auto

lemma first_index_append:
  "c \<in> set xs \<Longrightarrow> takeWhile (\<lambda>y. y \<noteq> c) (xs @ ys) = takeWhile (\<lambda>y. y \<noteq> c) xs"
  by (induction xs) auto

lemma first_index_sorted:
  "sorted_wrt (<) (map (\<lambda>c. length (takeWhile (\<lambda>y. y \<noteq> c) xs)) (rev (remdups (rev xs))))"
proof (induction xs rule: rev_induct)
  case Nil
  show ?case by simp
next
  case (snoc x xs)
  let ?D = "rev (remdups (rev xs))"
  have keep: "map (\<lambda>c. length (takeWhile (\<lambda>y. y \<noteq> c) (xs @ [x]))) ?D
      = map (\<lambda>c. length (takeWhile (\<lambda>y. y \<noteq> c) xs)) ?D"
    by (rule map_cong) (auto simp: first_index_append)
  show ?case
  proof (cases "x \<in> set xs")
    case True
    then have "rev (remdups (rev (xs @ [x]))) = ?D" by simp
    then show ?thesis using snoc.IH by (simp only: keep)
  next
    case False
    have D: "rev (remdups (rev (xs @ [x]))) = ?D @ [x]"
      using False by simp
    have "sorted_wrt (<) (map (\<lambda>c. length (takeWhile (\<lambda>y. y \<noteq> c) xs)) ?D @ [length xs])"
      using snoc.IH by (auto simp: sorted_wrt_append first_index_less)
    then show ?thesis
      by (simp only: D map_append list.map keep first_index_fresh [OF False])
  qed
qed

text \<open>
  Claim C2. For every list of scenes, \<open>collect_referenced_characters\<close> returns the
  distinct character names that occur in some scene's \<open>reference_images\<close>, each once,
  ordered by the position of its first occurrence in the scenes' reference lists read
  in input order (not sorted); the result is empty exactly when no scene references a
  character.
\<close>

theorem collect_first_occurrence_order:
  "distinct (collect_referenced_characters scenes)
   \<and> set (collect_referenced_characters scenes) = set (concat (map reference_images scenes))
   \<and> sorted_wrt (<)
        (map (\<lambda>c. length (takeWhile (\<lambda>x. x \<noteq> c) (concat (map reference_images scenes))))
          (collect_referenced_characters scenes))
   \<and> (collect_referenced_characters scenes = []) = (concat (map reference_images scenes) = [])"
  using first_index_sorted [of "concat (map reference_images scenes)"] collect_Nil_iff [of scenes]
  by (simp add: collect_closed_form)

theorem collect_first_occurrence_example:
  "collect_referenced_characters [scene_of 1 [''A'', ''B''], scene_of 2 [''B'', ''C'']]
     = [''A'', ''B'', ''C'']
   \<and> distinct (collect_referenced_characters [scene_of 1 [''A'', ''B''], scene_of 2 [''B'', ''C'']])
   \<and> collect_referenced_characters [] = []
   \<and> collect_referenced_characters [scene_of 1 [], scene_of 2 []] = []"
  using collect_first_occurrence_order [of "[scene_of 1 [''A'', ''B''], scene_of 2 [''B'', ''C'']]"]
    collect_first_occurrence_order [of "[]"]
    collect_first_occurrence_order [of "[scene_of 1 [], scene_of 2 []]"]
  by (simp add: collect_referenced_characters_def scene_of_def)

subsection \<open>The reference map builder\<close>

lemma join_sublist: "x \<in> set xs \<Longrightarrow> sublist x (join sep xs)"
proof (induction sep xs rule: join.induct)
  case (1 sep)
  then show ?case by simp
next
  case (2 sep y)
  then show ?case by simp
next
  case (3 sep y z zs)
  show ?case
  proof (cases "x = y")
    case True
    then show ?thesis by simp
  next
    case False
    then have "sublist x (join sep (z # zs))" using 3 by simp
    then obtain ps ss where "join sep (z # zs) = ps @ x @ ss"
      by (auto simp: sublist_def)
    then have "join sep (y # z # zs) = (y @ sep @ ps) @ x @ ss" by simp
    then show ?thesis unfolding sublist_def by blast
  qed
qed

lemma update_fresh: "k \<notin> fst ` set al \<Longrightarrow> AList.update k v al = al @ [(k, v)]"
  by (induction al) auto

lemma autoload_loop_eq:
  "distinct cs \<Longrightarrow> set cs \<inter> fst ` set refs = {} \<Longrightarrow>
   autoload_loop e cs refs =
     (case List.find (\<lambda>c. path_exists e (ref_path e c) \<noteq> Inr True) cs of
        None \<Rightarrow> Inr (refs @ map (\<lambda>c. (c, ref_path e c)) cs)
      | Some c \<Rightarrow>
          (case path_exists e (ref_path e c) of
             Inl exc \<Rightarrow> Inl (Uncaught exc)
           | Inr found \<Rightarrow>
               Inl (HTTPException 400
                 (''Reference image not found for '' @ [CHR 0x27] @ c @ [CHR 0x27] @ '' at ''
                    @ ref_path e c))))"
proof (induction cs arbitrary: refs)
  case Nil
  show ?case by simp
next
  case (Cons c cs)
  show ?case
  proof (cases "path_exists e (ref_path e c)")
    case (Inl exc)
    then show ?thesis by simp
  next
    case (Inr found)
    show ?thesis
    proof (cases found)
      case False
      then show ?thesis using Inr by simp
    next
      case True
      have fresh: "c \<notin> fst ` set refs" using Cons.prems by auto
      have upd: "AList.update c (ref_path e c) refs = refs @ [(c, ref_path e c)]"
        by (rule update_fresh [OF fresh])
      have d: "distinct cs" using Cons.prems by simp
      have disj: "set cs \<inter> fst ` set (refs @ [(c, ref_path e c)]) = {}"
        using Cons.prems by auto
      show ?thesis
        using True Inr Cons.IH [OF d disj] by (simp add: upd split: option.splits)
    qed
  qed
qed

lemma autoload_closed_form:
  "autoload_loop e (collect_referenced_characters scenes) [] =
     (case List.find (\<lambda>c. path_exists e (ref_path e c) \<noteq> Inr True)
             (collect_referenced_characters scenes) of
        None \<Rightarrow> Inr (map (\<lambda>c. (c, ref_path e c)) (collect_referenced_characters scenes))
      | Some c \<Rightarrow>
          (case path_exists e (ref_path e c) of
             Inl exc \<Rightarrow> Inl (Uncaught exc)
           | Inr found \<Rightarrow>
               Inl (HTTPException 400
                 (''Reference image not found for '' @ [CHR 0x27] @ c @ [CHR 0x27] @ '' at ''
                    @ ref_path e c))))"
  using autoload_loop_eq [of "collect_referenced_characters scenes" "[]" e]
  by (simp add: collect_distinct split: option.splits)

lemma build_provided_eq:
  assumes "provided_refs \<noteq> []"
  shows "build_character_ref_map e scenes (Some provided_refs) autoload_refs =
      (if filter (\<lambda>c. c \<notin> fst ` set provided_refs) (collect_referenced_characters scenes) \<noteq> []
       then Inl (HTTPException 400
              (''Missing reference paths for: ''
                 @ join '', '' (filter (\<lambda>c. c \<notin> fst ` set provided_refs)
                                 (collect_referenced_characters scenes))))
       else Inr provided_refs)"
proof -
  obtain item items where p: "provided_refs = item # items"
    using assms by (cases provided_refs) auto
  have filt: "filter (\<lambda>char. map_of provided_refs char = None)
        (collect_referenced_characters scenes)
      = filter (\<lambda>c. c \<notin> fst ` set provided_refs) (collect_referenced_characters scenes)"
    by (simp add: map_of_eq_None_iff)
  show ?thesis
    unfolding p build_character_ref_map.simps Let_def filt [unfolded p] by (rule refl)
qed

lemma build_absent_eq:
  assumes "provided = None \<or> provided = Some []"
  shows "build_character_ref_map e scenes provided autoload_refs =
     (if \<not> autoload_refs
      then (if collect_referenced_characters scenes \<noteq> []
            then Inl (HTTPException 400
                   ''Reference images required but no character_refs provided.'')
            else Inr [])
      else autoload_loop e (collect_referenced_characters scenes) [])"
  using assms by auto

lemma provided_cases:
  "(provided = None \<or> provided = Some []) \<or> (\<exists>p. provided = Some p \<and> p \<noteq> [])"
  by (cases provided) auto

lemma build_Inr_covers:
  assumes "build_character_ref_map e scenes provided autoload_refs = Inr refs"
    and "sc \<in> set scenes" and "ch \<in> set (reference_images sc)"
  shows "map_of refs ch \<noteq> None"
proof -
  have ch: "ch \<in> set (collect_referenced_characters scenes)"
    using assms(2,3) by (auto simp: collect_set)
  from provided_cases [of provided] show ?thesis
  proof
    assume p: "provided = None \<or> provided = Some []"
    show ?thesis
    proof (cases autoload_refs)
      case False
      then have "collect_referenced_characters scenes = []"
        using assms(1) unfolding build_absent_eq [OF p] by (simp split: if_splits)
      then show ?thesis using ch by simp
    next
      case True
      then have "autoload_loop e (collect_referenced_characters scenes) [] = Inr refs"
        using assms(1) unfolding build_absent_eq [OF p] by simp
      then have "refs = map (\<lambda>c. (c, ref_path e c)) (collect_referenced_characters scenes)"
        unfolding autoload_closed_form by (auto split: option.splits sum.splits)
      then have "ch \<in> fst ` set refs" using ch by force
      then show ?thesis by (simp add: map_of_eq_None_iff)
    qed
  next
    assume "\<exists>p. provided = Some p \<and> p \<noteq> []"
    then obtain p where p: "provided = Some p" and ne: "p \<noteq> []" by blast
    have "filter (\<lambda>c. c \<notin> fst ` set p) (collect_referenced_characters scenes) = []"
      and r: "refs = p"
      using assms(1) unfolding p build_provided_eq [OF ne] by (simp_all split: if_splits)
    then have "ch \<in> fst ` set p" using ch by (simp add: filter_empty_conv)
    then show ?thesis unfolding r by (simp add: map_of_eq_None_iff)
  qed
qed

text \<open>
  A failure of the builder is a status 400 of its own, or the exception that the
  existence check raised for the path of a referenced character.
\<close>

lemma build_Inl_cases:
  assumes "build_character_ref_map e scenes provided autoload_refs = Inl err"
  shows "(\<exists>m. err = HTTPException 400 m)
    \<or> (\<exists>sc \<in> set scenes. \<exists>ch \<in> set (reference_images sc). \<exists>exc.
          path_exists e (ref_path e ch) = Inl exc \<and> err = Uncaught exc)"
  using provided_cases [of provided]
proof
  assume p: "provided = None \<or> provided = Some []"
  show ?thesis
  proof (cases autoload_refs)
    case False
    then show ?thesis
      using assms unfolding build_absent_eq [OF p] by (auto split: if_splits)
  next
    case True
    then have a: "autoload_loop e (collect_referenced_characters scenes) [] = Inl err"
      using assms unfolding build_absent_eq [OF p] by simp
    then obtain c where
      f: "List.find (\<lambda>c. path_exists e (ref_path e c) \<noteq> Inr True)
            (collect_referenced_characters scenes) = Some c"
      unfolding autoload_closed_form by (auto split: option.splits)
    then have "c \<in> set (collect_referenced_characters scenes)"
      by (auto simp: find_Some_iff)
    then obtain sc where sc: "sc \<in> set scenes" "c \<in> set (reference_images sc)"
      by (auto simp: collect_set)
    show ?thesis
    proof (cases "path_exists e (ref_path e c)")
      case (Inl exc)
      then have "err = Uncaught exc"
        using a f unfolding autoload_closed_form by simp
      then show ?thesis using sc Inl by blast
    next
      case (Inr found)
      then show ?thesis
        using a f unfolding autoload_closed_form by auto
    qed
  qed
next
  assume "\<exists>p. provided = Some p \<and> p \<noteq> []"
  then obtain p where p: "provided = Some p" and ne: "p \<noteq> []" by blast
  show ?thesis
    using assms unfolding p build_provided_eq [OF ne] by (auto split: if_splits)
qed

text \<open>
  Claim C3. For every scene list and every non-empty \<open>provided_refs\<close>: when every
  character name referenced by a scene is a key of \<open>provided_refs\<close>, the builder returns
  \<open>provided_refs\<close> unchanged, extra entries included; otherwise it fails with status 400
  and the message lists, after a fixed prefix and separated by commas, all the
  referenced names that are missing, in collector order, so that every missing name
  occurs in the message.
\<close>

theorem build_with_provided_refs:
  assumes "provided_refs \<noteq> []"
  shows "build_character_ref_map e scenes (Some provided_refs) autoload_refs =
     (if \<forall>sc \<in> set scenes. \<forall>c \<in> set (reference_images sc). c \<in> fst ` set provided_refs
      then Inr provided_refs
      else Inl (HTTPException 400
             (''Missing reference paths for: ''
               @ join '', '' (filter (\<lambda>c. c \<notin> fst ` set provided_refs)
                               (collect_referenced_characters scenes)))))
   \<and> (\<forall>sc \<in> set scenes. \<forall>c \<in> set (reference_images sc). c \<notin> fst ` set provided_refs \<longrightarrow>
        (\<exists>m. build_character_ref_map e scenes (Some provided_refs) autoload_refs
                = Inl (HTTPException 400 m) \<and> sublist c m))"
proof -
  let ?missing =
    "filter (\<lambda>c. c \<notin> fst ` set provided_refs) (collect_referenced_characters scenes)"
  note build = build_provided_eq [OF assms, of e scenes autoload_refs]
  have empty: "(?missing = []) =
      (\<forall>sc \<in> set scenes. \<forall>c \<in> set (reference_images sc). c \<in> fst ` set provided_refs)"
    by (auto simp: filter_empty_conv collect_set)
  have first: "build_character_ref_map e scenes (Some provided_refs) autoload_refs =
     (if \<forall>sc \<in> set scenes. \<forall>c \<in> set (reference_images sc). c \<in> fst ` set provided_refs
      then Inr provided_refs
      else Inl (HTTPException 400 (''Missing reference paths for: '' @ join '', '' ?missing)))"
    unfolding build using empty by auto
  have second: "\<forall>sc \<in> set scenes. \<forall>c \<in> set (reference_images sc).
      c \<notin> fst ` set provided_refs \<longrightarrow>
        (\<exists>m. build_character_ref_map e scenes (Some provided_refs) autoload_refs
                = Inl (HTTPException 400 m) \<and> sublist c m)"
  proof (intro ballI impI)
    fix sc c
    assume sc: "sc \<in> set scenes" and c: "c \<in> set (reference_images sc)"
      and miss: "c \<notin> fst ` set provided_refs"
    have "c \<in> set (collect_referenced_characters scenes)"
      using sc c by (auto simp: collect_set)
    then have in_missing: "c \<in> set ?missing" using miss by simp
    then have ne: "?missing \<noteq> []" by (metis empty_iff list.set(1))
    have "sublist c (join '', '' ?missing)"
      by (rule join_sublist [OF in_missing])
    then obtain ps ss where "join '', '' ?missing = ps @ c @ ss"
      by (auto simp: sublist_def)
    then have "''Missing reference paths for: '' @ join '', '' ?missing
        = (''Missing reference paths for: '' @ ps) @ c @ ss"
      by simp
    then have "sublist c (''Missing reference paths for: '' @ join '', '' ?missing)"
      unfolding sublist_def by blast
    then show "\<exists>m. build_character_ref_map e scenes (Some provided_refs) autoload_refs
                = Inl (HTTPException 400 m) \<and> sublist c m"
      unfolding build using ne by auto
  qed
  show ?thesis using first second by (rule conjI)
qed

theorem build_with_provided_refs_example:
  "[(''A'', ''a.png''), (''Z'', ''z.png'')] \<noteq> []
   \<and> build_character_ref_map (env_of Missing [])
        [scene_of 1 [''A'', ''B''], scene_of 2 [''B'', ''C'']]
        (Some [(''A'', ''a.png''), (''Z'', ''z.png'')]) True
       = Inl (HTTPException 400 ''Missing reference paths for: B, C'')
   \<and> build_character_ref_map (env_of Missing []) [scene_of 1 [''A'']]
        (Some [(''A'', ''a.png''), (''Z'', ''z.png'')]) True
       = Inr [(''A'', ''a.png''), (''Z'', ''z.png'')]"
  using build_with_provided_refs [of "[(''A'', ''a.png''), (''Z'', ''z.png'')]" "env_of Missing []"
             "[scene_of 1 [''A'', ''B''], scene_of 2 [''B'', ''C'']]" True]
    build_with_provided_refs [of "[(''A'', ''a.png''), (''Z'', ''z.png'')]" "env_of Missing []"
             "[scene_of 1 [''A'']]" True]
  by (simp add: collect_referenced_characters_def scene_of_def)

text \<open>
  In \<open>env_name_max\<close> the path derived for a name of 252 characters has a last component
  of 256 characters, and the existence check raises.
\<close>

lemma exists_name_too_long:
  "path_exists (env_name_max secret files)
      (ref_path (env_name_max secret files) (replicate 252 (CHR ''a'')))
     = Inl (Exception ''OSError'' ''[Errno 36] File name too long'')"
proof -
  let ?name = "replicate 252 (CHR ''a'')"
  let ?p = "''output/refs/'' @ ?name @ ''.png''"
  have rp: "ref_path (env_name_max secret files) ?name = ?p"
    by (simp add: ref_path_def env_name_max_def)
  have t: "takeWhile (\<lambda>c. c \<noteq> CHR ''/'') (rev ?p) = ''gnp.'' @ ?name"
    by (simp add: takeWhile_append)
  have len: "length (takeWhile (\<lambda>c. c \<noteq> CHR ''/'') (rev ?p)) = 256"
    unfolding t by simp
  have "path_exists (env_name_max secret files) ?p
      = Inl (Exception ''OSError'' ''[Errno 36] File name too long'')"
    using len by (simp add: env_name_max_def)
  then show ?thesis by (simp add: rp)
qed

lemma collect_single:
  "collect_referenced_characters [scene_of n [name]] = [name]"
  by (simp add: collect_referenced_characters_def scene_of_def)

lemma reference_images_scene_of: "reference_images (scene_of n refs) = refs"
  by (simp add: scene_of_def)

lemma resolve_given_key: "resolve_api_key e (Some ''k'') key_name = Inr (JString ''k'')"
  by (simp add: resolve_api_key_def)




text \<open>
  Claim C8. For every scene list, with \<open>provided_refs\<close> absent and autoload false, the
  builder fails with status 400 and the message that reference images are required when
  some scene references a character, and returns the empty map when none does.
\<close>

theorem build_without_autoload:
  "build_character_ref_map e scenes None False =
     (if \<exists>sc \<in> set scenes. reference_images sc \<noteq> []
      then Inl (HTTPException 400 ''Reference images required but no character_refs provided.'')
      else Inr [])"
  by (simp add: collect_Nil_iff)

theorem build_without_autoload_example:
  "build_character_ref_map (env_of Missing []) [scene_of 1 [], scene_of 2 [''A'']] None False
     = Inl (HTTPException 400 ''Reference images required but no character_refs provided.'')
   \<and> build_character_ref_map (env_of Missing []) [scene_of 1 [], scene_of 2 []] None False
     = Inr []"
  using build_without_autoload [of "env_of Missing []" "[scene_of 1 [], scene_of 2 [''A'']]"]
    build_without_autoload [of "env_of Missing []" "[scene_of 1 [], scene_of 2 []]"]
  by (simp add: scene_of_def)

text \<open>
  Claim C10. For every scene list and autoload flag, the builder called with the empty
  dict equals the builder called with no dict, and the scene-videos handler gives the
  same result for \<^verbatim>\<open>character_refs = {}\<close> as for an omitted field. With autoload true
  the empty dict leads to the derivation from the files: the builder's result is the one
  of the auto-load loop, and a scene-videos request with \<^verbatim>\<open>character_refs = {}\<close>,
  autoload true and both keys resolved either stops without a delegate call at the first
  referenced character whose file is not found (status 400 "Reference image not found",
  or the exception of the existence check), or calls the scene-video delegate with the
  map derived from the files and returns what the handler makes of the delegate's
  result. It never fails with the missing-names message.
\<close>

theorem build_empty_provided_is_absent:
  "build_character_ref_map e scenes (Some []) autoload_refs
     = build_character_ref_map e scenes None autoload_refs
   \<and> create_scene_videos e d (request\<lparr>sv_character_refs := Some []\<rparr>)
     = create_scene_videos e d (request\<lparr>sv_character_refs := None\<rparr>)
   \<and> build_character_ref_map e scenes (Some []) True =
       (case List.find (\<lambda>c. path_exists e (ref_path e c) \<noteq> Inr True)
               (collect_referenced_characters scenes) of
          None \<Rightarrow> Inr (map (\<lambda>c. (c, ref_path e c)) (collect_referenced_characters scenes))
        | Some c \<Rightarrow>
            (case path_exists e (ref_path e c) of
               Inl exc \<Rightarrow> Inl (Uncaught exc)
             | Inr found \<Rightarrow>
                 Inl (HTTPException 400
                   (''Reference image not found for '' @ [CHR 0x27] @ c @ [CHR 0x27] @ '' at ''
                      @ ref_path e c))))
   \<and> (sv_character_refs sv = Some [] \<and> sv_autoload_refs sv
        \<and> resolve_api_key e (sv_image_api_key sv) ''image_api_key'' = Inr ik
        \<and> resolve_api_key e (or_else (sv_veo_api_key sv) (sv_image_api_key sv)) ''veo_api_key''
             = Inr vk
      \<longrightarrow> create_scene_videos e d sv =
           (case List.find (\<lambda>c. path_exists e (ref_path e c) \<noteq> Inr True)
                   (collect_referenced_characters (sv_scenes sv)) of
              Some c \<Rightarrow>
                ([], Inl (case path_exists e (ref_path e c) of
                            Inl exc \<Rightarrow> Uncaught exc
                          | Inr found \<Rightarrow>
                              HTTPException 400
                                (''Reference image not found for '' @ [CHR 0x27] @ c @ [CHR 0x27]
                                   @ '' at '' @ ref_path e c)))
            | None \<Rightarrow>
                ([SceneVideosCall ik vk (sv_scenes sv)
                    (map (\<lambda>c. (c, ref_path e c)) (collect_referenced_characters (sv_scenes sv)))],
                 (case generate_scene_videos d ik vk (sv_scenes sv)
                         (map (\<lambda>c. (c, ref_path e c))
                            (collect_referenced_characters (sv_scenes sv))) of
                    Inl (ValueError exc) \<Rightarrow> Inl (HTTPException 400 exc)
                  | Inl (OtherException exc) \<Rightarrow> Inl (HTTPException 500 exc)
                  | Inr videos \<Rightarrow> Inr (SceneVideoResponse videos)))))"
proof (intro conjI impI)
  show "build_character_ref_map e scenes (Some []) autoload_refs
     = build_character_ref_map e scenes None autoload_refs"
    by simp
  show "create_scene_videos e d (request\<lparr>sv_character_refs := Some []\<rparr>)
     = create_scene_videos e d (request\<lparr>sv_character_refs := None\<rparr>)"
    by (simp add: create_scene_videos_def cong: sum.case_cong)
  show "build_character_ref_map e scenes (Some []) True =
       (case List.find (\<lambda>c. path_exists e (ref_path e c) \<noteq> Inr True)
               (collect_referenced_characters scenes) of
          None \<Rightarrow> Inr (map (\<lambda>c. (c, ref_path e c)) (collect_referenced_characters scenes))
        | Some c \<Rightarrow>
            (case path_exists e (ref_path e c) of
               Inl exc \<Rightarrow> Inl (Uncaught exc)
             | Inr found \<Rightarrow>
                 Inl (HTTPException 400
                   (''Reference image not found for '' @ [CHR 0x27] @ c @ [CHR 0x27] @ '' at ''
                      @ ref_path e c))))"
    unfolding autoload_closed_form [symmetric] by simp
next
  assume a: "sv_character_refs sv = Some [] \<and> sv_autoload_refs sv
        \<and> resolve_api_key e (sv_image_api_key sv) ''image_api_key'' = Inr ik
        \<and> resolve_api_key e (or_else (sv_veo_api_key sv) (sv_image_api_key sv)) ''veo_api_key''
             = Inr vk"
  have b: "build_character_ref_map e (sv_scenes sv) (sv_character_refs sv) (sv_autoload_refs sv)
      = autoload_loop e (collect_referenced_characters (sv_scenes sv)) []"
    using a by simp
  show "create_scene_videos e d sv =
           (case List.find (\<lambda>c. path_exists e (ref_path e c) \<noteq> Inr True)
                   (collect_referenced_characters (sv_scenes sv)) of
              Some c \<Rightarrow>
                ([], Inl (case path_exists e (ref_path e c) of
                            Inl exc \<Rightarrow> Uncaught exc
                          | Inr found \<Rightarrow>
                              HTTPException 400
                                (''Reference image not found for '' @ [CHR 0x27] @ c @ [CHR 0x27]
                                   @ '' at '' @ ref_path e c)))
            | None \<Rightarrow>
                ([SceneVideosCall ik vk (sv_scenes sv)
                    (map (\<lambda>c. (c, ref_path e c)) (collect_referenced_characters (sv_scenes sv)))],
                 (case generate_scene_videos d ik vk (sv_scenes sv)
                         (map (\<lambda>c. (c, ref_path e c))
                            (collect_referenced_characters (sv_scenes sv))) of
                    Inl (ValueError exc) \<Rightarrow> Inl (HTTPException 400 exc)
                  | Inl (OtherException exc) \<Rightarrow> Inl (HTTPException 500 exc)
                  | Inr videos \<Rightarrow> Inr (SceneVideoResponse videos))))"
    using a unfolding create_scene_videos_def b autoload_closed_form
    by (simp split: option.splits sum.splits)
qed

theorem build_empty_provided_example:
  "create_scene_videos (env_of Missing [''output/refs/A.png'']) contract_delegates
      \<lparr>sv_scenes = [scene_of 1 [''A'']], sv_image_api_key = Some ''k'', sv_veo_api_key = None,
       sv_character_refs = Some [], sv_autoload_refs = True\<rparr>
     = ([SceneVideosCall (JString ''k'') (JString ''k'') [scene_of 1 [''A'']]
           [(''A'', ''output/refs/A.png'')]],
        Inr (SceneVideoResponse [''output/scenes/scene.mp4'']))
   \<and> create_scene_videos (env_of Missing []) contract_delegates
      \<lparr>sv_scenes = [scene_of 1 [''A'']], sv_image_api_key = Some ''k'', sv_veo_api_key = None,
       sv_character_refs = Some [], sv_autoload_refs = True\<rparr>
     = ([], Inl (HTTPException 400
         (''Reference image not found for '' @ [CHR 0x27] @ ''A'' @ [CHR 0x27]
            @ '' at output/refs/A.png'')))
   \<and> build_character_ref_map (env_of Missing [''output/refs/A.png'']) [scene_of 1 [''A'']]
      (Some []) True
     = Inr [(''A'', ''output/refs/A.png'')]"
proof -
  let ?sv = "\<lparr>sv_scenes = [scene_of 1 [''A'']], sv_image_api_key = Some ''k'',
      sv_veo_api_key = None, sv_character_refs = Some [], sv_autoload_refs = True\<rparr>"
  have o: "or_else None (Some ''k'') = Some ''k''"
    by (simp add: or_else_def)
  have hyp: "sv_character_refs ?sv = Some [] \<and> sv_autoload_refs ?sv
      \<and> resolve_api_key e (sv_image_api_key ?sv) ''image_api_key'' = Inr (JString ''k'')
      \<and> resolve_api_key e (or_else (sv_veo_api_key ?sv) (sv_image_api_key ?sv)) ''veo_api_key''
           = Inr (JString ''k'')" for e
    by (simp add: o resolve_given_key)
  have found: "create_scene_videos (env_of Missing [''output/refs/A.png'']) contract_delegates ?sv
     = ([SceneVideosCall (JString ''k'') (JString ''k'') [scene_of 1 [''A'']]
           [(''A'', ''output/refs/A.png'')]],
        Inr (SceneVideoResponse [''output/scenes/scene.mp4'']))"
    using build_empty_provided_is_absent
        [THEN conjunct2, THEN conjunct2, THEN conjunct2, THEN mp, OF hyp,
         of "env_of Missing [''output/refs/A.png'']" contract_delegates]
    by (simp add: collect_single reference_images_scene_of ref_path_def env_of_def
          contract_delegates_def)
  have absent: "create_scene_videos (env_of Missing []) contract_delegates ?sv
     = ([], Inl (HTTPException 400
         (''Reference image not found for '' @ [CHR 0x27] @ ''A'' @ [CHR 0x27]
            @ '' at output/refs/A.png'')))"
    using build_empty_provided_is_absent
        [THEN conjunct2, THEN conjunct2, THEN conjunct2, THEN mp, OF hyp,
         of "env_of Missing []" contract_delegates]
    by (simp add: collect_single ref_path_def env_of_def)
  have builder: "build_character_ref_map (env_of Missing [''output/refs/A.png''])
      [scene_of 1 [''A'']] (Some []) True = Inr [(''A'', ''output/refs/A.png'')]"
    using build_empty_provided_is_absent
        [THEN conjunct2, THEN conjunct2, THEN conjunct1,
         of "env_of Missing [''output/refs/A.png'']" "[scene_of 1 [''A'']]"]
    by (simp add: collect_single ref_path_def env_of_def)
  show ?thesis
    using found absent builder by simp
qed

subsection \<open>Secret loader and key resolver\<close>

lemma load_default_api_key_cases:
  "(secret_json e = Missing \<longrightarrow> load_default_api_key e = Inr JNull)
   \<and> (secret_json e = Undecodable exc \<longrightarrow>
        load_default_api_key e = Inl (HTTPException 500 (''Invalid secret.json format: '' @ exc)))
   \<and> (secret_json e = ReadFails x \<longrightarrow> load_default_api_key e = Inl (Uncaught x))
   \<and> (secret_json e = Decoded (JObject kvs) \<longrightarrow>
        load_default_api_key e = Inr (case map_of kvs ''project_api_key'' of None \<Rightarrow> JNull | Some v \<Rightarrow> v))"
  by (simp add: load_default_api_key_def)

text \<open>
  Claim C7. The loader returns nothing when the secret file does not exist, fails with
  status 500 and a message describing the parse failure when \<^verbatim>\<open>json.loads\<close> rejects
  the file with \<^verbatim>\<open>JSONDecodeError\<close>, and returns the field \<^verbatim>\<open>project_api_key\<close>
  (nothing when the field is absent) when the file holds a JSON object: these cases
  are in \<open>load_default_api_key_cases\<close>. A file that holds valid JSON which is not an
  object is none of the claim's outcomes: \<^verbatim>\<open>payload.get\<close> raises
  \<^verbatim>\<open>AttributeError\<close>, which the function does not catch. The theorem evaluates the
  loader on the file \<^verbatim>\<open>[]\<close>.
\<close>

theorem load_default_api_key_on_array:
  "load_default_api_key (env_of (Decoded (JArray [])) [])
     = Inl (AttributeError ([CHR 0x27] @ ''list'' @ [CHR 0x27] @ '' object has no attribute ''
              @ [CHR 0x27] @ ''get'' @ [CHR 0x27]))"
  by (simp add: load_default_api_key_def env_of_def)

lemma resolve_provided:
  "k \<noteq> [] \<Longrightarrow> resolve_api_key e (Some k) key_name = Inr (JString k)"
  by (simp add: resolve_api_key_def)

lemma resolve_default:
  "provided = None \<or> provided = Some [] \<Longrightarrow>
   resolve_api_key e provided key_name =
     (case load_default_api_key e of
        Inl err \<Rightarrow> Inl err
      | Inr v \<Rightarrow> if truthy v then Inr v
                 else Inl (HTTPException 400
                        (key_name @ '' is required. Provide it in the request body or secret.json.'')))"
  by (auto simp: resolve_api_key_def split: sum.splits)

lemma resolve_key_name:
  "resolve_api_key e provided n1 = Inr k \<Longrightarrow> resolve_api_key e provided n2 = Inr k"
  by (auto simp: resolve_api_key_def split: sum.splits if_splits option.splits)

lemma resolve_or_else:
  assumes "resolve_api_key e img ''image_api_key'' = Inr ik"
    and "resolve_api_key e (or_else veo img) ''veo_api_key'' = Inr vk"
  shows "vk = (case veo of Some k \<Rightarrow> if k \<noteq> [] then JString k else ik | None \<Rightarrow> ik)"
proof (cases "\<exists>k. veo = Some k \<and> k \<noteq> []")
  case True
  then obtain k where k: "veo = Some k" "k \<noteq> []" by blast
  then have "or_else veo img = Some k" by (simp add: or_else_def)
  then show ?thesis using assms(2) k by (simp add: resolve_provided)
next
  case False
  then have o: "or_else veo img = img"
    by (cases veo) (auto simp: or_else_def)
  have "resolve_api_key e img ''veo_api_key'' = Inr ik"
    by (rule resolve_key_name [OF assms(1)])
  then have "vk = ik" using assms(2) unfolding o by simp
  then show ?thesis using False by (cases veo) auto
qed

lemma resolve_image_source:
  assumes "resolve_api_key e img key_name = Inr ik"
  shows "case img of
           Some k \<Rightarrow> if k \<noteq> [] then ik = JString k else load_default_api_key e = Inr ik
         | None \<Rightarrow> load_default_api_key e = Inr ik"
  using assms
  by (auto simp: resolve_api_key_def split: sum.splits if_splits option.splits)

text \<open>
  Claim C6, as amended. For every call of \<open>resolve_api_key\<close>: a non-empty \<open>provided\<close>
  is returned, and the secret file is not read. Otherwise the loader decides: what the
  loader raises is the result, unchanged (its status 500 when \<^verbatim>\<open>json.loads\<close> rejects
  the file with \<^verbatim>\<open>JSONDecodeError\<close>, and any exception it does not catch); a value of
  the loader that is true in Python's sense (for a string: non-empty) is returned; and
  when the loader returns nothing or a false value, the result is a failure with status
  400 whose message starts with \<open>key_name\<close>. So a missing file gives status 400, and a
  file holding a JSON object gives the value of \<^verbatim>\<open>project_api_key\<close> when that is
  there and true, and status 400 otherwise.
\<close>

theorem resolve_api_key_sources:
  "(\<forall>k. provided = Some k \<and> k \<noteq> [] \<longrightarrow> resolve_api_key e provided key_name = Inr (JString k))
   \<and> (provided = None \<or> provided = Some [] \<longrightarrow>
        (\<forall>err. load_default_api_key e = Inl err \<longrightarrow> resolve_api_key e provided key_name = Inl err)
      \<and> (\<forall>v. load_default_api_key e = Inr v \<longrightarrow>
           resolve_api_key e provided key_name
             = (if truthy v then Inr v
                else Inl (HTTPException 400
                  (key_name @ '' is required. Provide it in the request body or secret.json.''))))
      \<and> (\<forall>exc. secret_json e = Undecodable exc \<longrightarrow>
           resolve_api_key e provided key_name
             = Inl (HTTPException 500 (''Invalid secret.json format: '' @ exc)))
      \<and> (secret_json e = Missing \<longrightarrow>
           resolve_api_key e provided key_name
             = Inl (HTTPException 400
                 (key_name @ '' is required. Provide it in the request body or secret.json.'')))
      \<and> (\<forall>kvs. secret_json e = Decoded (JObject kvs) \<longrightarrow>
           resolve_api_key e provided key_name
             = (case map_of kvs ''project_api_key'' of
                  Some v \<Rightarrow>
                    if truthy v then Inr v
                    else Inl (HTTPException 400
                      (key_name @ '' is required. Provide it in the request body or secret.json.''))
                | None \<Rightarrow>
                    Inl (HTTPException 400
                      (key_name @ '' is required. Provide it in the request body or secret.json.'')))))"
proof (intro conjI allI impI)
  fix k assume "provided = Some k \<and> k \<noteq> []"
  then show "resolve_api_key e provided key_name = Inr (JString k)"
    by (simp add: resolve_provided)
next
  fix err assume "provided = None \<or> provided = Some []" "load_default_api_key e = Inl err"
  then show "resolve_api_key e provided key_name = Inl err"
    by (simp add: resolve_default)
next
  fix v assume "provided = None \<or> provided = Some []" "load_default_api_key e = Inr v"
  then show "resolve_api_key e provided key_name
             = (if truthy v then Inr v
                else Inl (HTTPException 400
                  (key_name @ '' is required. Provide it in the request body or secret.json.'')))"
    by (simp add: resolve_default)
next
  fix exc assume "provided = None \<or> provided = Some []" "secret_json e = Undecodable exc"
  then show "resolve_api_key e provided key_name
             = Inl (HTTPException 500 (''Invalid secret.json format: '' @ exc))"
    by (simp add: resolve_default load_default_api_key_def)
next
  assume "provided = None \<or> provided = Some []" "secret_json e = Missing"
  then show "resolve_api_key e provided key_name
             = Inl (HTTPException 400
                 (key_name @ '' is required. Provide it in the request body or secret.json.''))"
    by (simp add: resolve_default load_default_api_key_def)
next
  fix kvs assume "provided = None \<or> provided = Some []" "secret_json e = Decoded (JObject kvs)"
  then show "resolve_api_key e provided key_name
             = (case map_of kvs ''project_api_key'' of
                  Some v \<Rightarrow>
                    if truthy v then Inr v
                    else Inl (HTTPException 400
                      (key_name @ '' is required. Provide it in the request body or secret.json.''))
                | None \<Rightarrow>
                    Inl (HTTPException 400
                      (key_name @ '' is required. Provide it in the request body or secret.json.'')))"
    by (simp add: resolve_default load_default_api_key_def split: option.splits)
qed

text \<open>
  The claim as stated promises status 400 whenever neither \<open>provided\<close> nor a default key
  is there. With a secret file that is not valid JSON the result has status 500.
\<close>

theorem resolve_api_key_undecodable_secret:
  "resolve_api_key (env_of (Undecodable ''Expecting value: line 1 column 1 (char 0)'') [])
      None ''image_api_key''
     = Inl (HTTPException 500
         ''Invalid secret.json format: Expecting value: line 1 column 1 (char 0)'')"
  by (simp add: resolve_api_key_def load_default_api_key_def env_of_def)

theorem resolve_api_key_sources_example:
  "resolve_api_key (env_of (Decoded (JObject [(''project_api_key'', JString ''k1'')])) [])
      (Some ''k0'') ''image_api_key'' = Inr (JString ''k0'')
   \<and> resolve_api_key (env_of (Decoded (JObject [(''project_api_key'', JString ''k1'')])) [])
      None ''image_api_key'' = Inr (JString ''k1'')
   \<and> resolve_api_key (env_of Missing []) None ''veo_api_key''
      = Inl (HTTPException 400
          ''veo_api_key is required. Provide it in the request body or secret.json.'')
   \<and> resolve_api_key (env_of (Undecodable ''Extra data'') []) (Some []) ''veo_api_key''
      = Inl (HTTPException 500 ''Invalid secret.json format: Extra data'')
   \<and> resolve_api_key
        (env_of (ReadFails (Exception ''UnicodeDecodeError'' ''invalid start byte'')) [])
        None ''image_api_key''
      = Inl (Uncaught (Exception ''UnicodeDecodeError'' ''invalid start byte''))
   \<and> resolve_api_key (env_of (Decoded (JObject [(''project_api_key'', JFloat (Finite 0 0))])) [])
        None ''image_api_key''
      = Inl (HTTPException 400
          ''image_api_key is required. Provide it in the request body or secret.json.'')"
  using resolve_api_key_sources [of "Some ''k0''"
      "env_of (Decoded (JObject [(''project_api_key'', JString ''k1'')])) []" "''image_api_key''"]
    resolve_api_key_sources [of None
      "env_of (Decoded (JObject [(''project_api_key'', JString ''k1'')])) []" "''image_api_key''"]
    resolve_api_key_sources [of None "env_of Missing []" "''veo_api_key''"]
    resolve_api_key_sources [of "Some []" "env_of (Undecodable ''Extra data'') []" "''veo_api_key''"]
    resolve_api_key_sources [of None
      "env_of (ReadFails (Exception ''UnicodeDecodeError'' ''invalid start byte'')) []"
      "''image_api_key''"]
    resolve_api_key_sources [of None
      "env_of (Decoded (JObject [(''project_api_key'', JFloat (Finite 0 0))])) []"
      "''image_api_key''"]
  by (simp add: env_of_def load_default_api_key_def)

subsection \<open>Route handlers\<close>

lemma scene_videos_calls:
  "fst (create_scene_videos e d request) = [] \<or>
   (\<exists>ik vk refs.
      resolve_api_key e (sv_image_api_key request) ''image_api_key'' = Inr ik
      \<and> resolve_api_key e (or_else (sv_veo_api_key request) (sv_image_api_key request)) ''veo_api_key'' = Inr vk
      \<and> build_character_ref_map e (sv_scenes request) (sv_character_refs request) (sv_autoload_refs request) = Inr refs
      \<and> fst (create_scene_videos e d request) = [SceneVideosCall ik vk (sv_scenes request) refs])"
  by (auto simp: create_scene_videos_def split: sum.splits)

lemma trailer_body_calls:
  assumes "SceneVideosCall ik' vk' scs refs \<in> set (fst (trailer_body d ik vk tr))"
  shows "ik' = ik \<and> vk' = vk"
  using assms
  by (auto simp: trailer_body_def Let_def split: sum.splits if_splits)

lemma generate_trailer_calls:
  assumes "resolve_api_key e (tr_image_api_key tr) ''image_api_key'' = Inr ik"
    and "resolve_api_key e (or_else (tr_veo_api_key tr) (tr_image_api_key tr)) ''veo_api_key'' = Inr vk"
  shows "fst (generate_trailer e d tr) = fst (trailer_body d ik vk tr)"
  using assms
  by (simp add: generate_trailer_def split: prod.splits sum.splits delegate_failure.splits)

lemma generate_trailer_no_calls:
  assumes "c \<in> set (fst (generate_trailer e d tr))"
  shows "\<exists>ik vk. resolve_api_key e (tr_image_api_key tr) ''image_api_key'' = Inr ik
    \<and> resolve_api_key e (or_else (tr_veo_api_key tr) (tr_image_api_key tr)) ''veo_api_key'' = Inr vk"
  using assms
  by (auto simp: generate_trailer_def split: sum.splits)

lemma generate_trailer_result:
  assumes "resolve_api_key e (tr_image_api_key tr) ''image_api_key'' = Inr ik"
    and "resolve_api_key e (or_else (tr_veo_api_key tr) (tr_image_api_key tr)) ''veo_api_key'' = Inr vk"
    and "snd (trailer_body d ik vk tr) = Inl f"
  shows "snd (generate_trailer e d tr)
     = Inl (HTTPException (case f of ValueError _ \<Rightarrow> 400 | OtherException _ \<Rightarrow> 500) (message f))"
  using assms
  by (cases "trailer_body d ik vk tr"; cases f) (simp_all add: generate_trailer_def)

lemma trailer_body_call_refs:
  assumes "SceneVideosCall ik' vk' scs refs \<in> set (fst (trailer_body d ik vk tr))"
  shows "scs = tr_scenes tr \<and> generate_character_references d ik (tr_character_designs tr) = Inr refs"
  using assms
  by (auto simp: trailer_body_def Let_def split: sum.splits if_splits)

lemma trailer_passes_delegate_refs:
  assumes "resolve_api_key e (tr_image_api_key tr) ''image_api_key'' = Inr ik"
    and "resolve_api_key e (or_else (tr_veo_api_key tr) (tr_image_api_key tr)) ''veo_api_key''
          = Inr vk"
    and "generate_character_references d ik (tr_character_designs tr) = Inr refs"
  shows "SceneVideosCall ik vk (tr_scenes tr) refs \<in> set (fst (generate_trailer e d tr))"
  unfolding generate_trailer_calls [OF assms(1,2)]
  using assms(3) by (simp add: trailer_body_def Let_def split: sum.splits)

text \<open>
  Claim C1, as amended. For every request handled by the scene-videos route, every
  delegate call the handler makes is a scene-video generation call on the request's
  scenes whose reference map has an entry for every character name in any scene's
  \<open>reference_images\<close>. When the builder fails, no delegate is called and the builder's
  failure is the handler's result once both keys resolve; that failure has status 400,
  unless the existence check raised for the path of a referenced character, in which
  case it is that exception, uncaught. The trailer route builds and checks no map: once
  both keys resolve and the character-reference delegate returns a map, the scene-video
  delegate is called with the request's scenes and exactly that map, and every
  scene-video call of the route is of this kind.
\<close>

theorem scene_videos_call_has_all_refs:
  "(\<forall>c \<in> set (fst (create_scene_videos e d request)).
      \<exists>ik vk refs. c = SceneVideosCall ik vk (sv_scenes request) refs
        \<and> (\<forall>sc \<in> set (sv_scenes request). \<forall>ch \<in> set (reference_images sc). map_of refs ch \<noteq> None))
   \<and> (\<forall>err. build_character_ref_map e (sv_scenes request) (sv_character_refs request)
               (sv_autoload_refs request) = Inl err \<longrightarrow>
          ((\<exists>m. err = HTTPException 400 m)
           \<or> (\<exists>sc \<in> set (sv_scenes request). \<exists>ch \<in> set (reference_images sc). \<exists>exc.
                 path_exists e (ref_path e ch) = Inl exc \<and> err = Uncaught exc))
          \<and> fst (create_scene_videos e d request) = []
          \<and> (\<forall>ik vk. resolve_api_key e (sv_image_api_key request) ''image_api_key'' = Inr ik
                \<and> resolve_api_key e (or_else (sv_veo_api_key request) (sv_image_api_key request))
                     ''veo_api_key'' = Inr vk
                \<longrightarrow> snd (create_scene_videos e d request) = Inl err))
   \<and> (\<forall>ik vk refs.
          resolve_api_key e (tr_image_api_key tr) ''image_api_key'' = Inr ik
          \<and> resolve_api_key e (or_else (tr_veo_api_key tr) (tr_image_api_key tr)) ''veo_api_key''
               = Inr vk
          \<and> generate_character_references d ik (tr_character_designs tr) = Inr refs
          \<longrightarrow> SceneVideosCall ik vk (tr_scenes tr) refs \<in> set (fst (generate_trailer e d tr)))
   \<and> (\<forall>ik vk scs refs.
          SceneVideosCall ik vk scs refs \<in> set (fst (generate_trailer e d tr))
          \<longrightarrow> scs = tr_scenes tr
              \<and> generate_character_references d ik (tr_character_designs tr) = Inr refs)"
proof (intro conjI ballI allI impI)
  fix c assume c: "c \<in> set (fst (create_scene_videos e d request))"
  then obtain ik vk refs where
    b: "build_character_ref_map e (sv_scenes request) (sv_character_refs request)
          (sv_autoload_refs request) = Inr refs"
    and calls: "fst (create_scene_videos e d request)
          = [SceneVideosCall ik vk (sv_scenes request) refs]"
    using scene_videos_calls [of e d request] by auto
  have "c = SceneVideosCall ik vk (sv_scenes request) refs" using c calls by simp
  moreover have "\<forall>sc \<in> set (sv_scenes request). \<forall>ch \<in> set (reference_images sc).
      map_of refs ch \<noteq> None"
    using build_Inr_covers [OF b] by blast
  ultimately show "\<exists>ik vk refs. c = SceneVideosCall ik vk (sv_scenes request) refs
        \<and> (\<forall>sc \<in> set (sv_scenes request). \<forall>ch \<in> set (reference_images sc). map_of refs ch \<noteq> None)"
    by blast
next
  fix err assume "build_character_ref_map e (sv_scenes request) (sv_character_refs request)
               (sv_autoload_refs request) = Inl err"
  then show "(\<exists>m. err = HTTPException 400 m)
           \<or> (\<exists>sc \<in> set (sv_scenes request). \<exists>ch \<in> set (reference_images sc). \<exists>exc.
                 path_exists e (ref_path e ch) = Inl exc \<and> err = Uncaught exc)"
    by (rule build_Inl_cases)
next
  fix err assume "build_character_ref_map e (sv_scenes request) (sv_character_refs request)
               (sv_autoload_refs request) = Inl err"
  then show "fst (create_scene_videos e d request) = []"
    by (simp add: create_scene_videos_def split: sum.splits)
next
  fix err ik vk
  assume "build_character_ref_map e (sv_scenes request) (sv_character_refs request)
               (sv_autoload_refs request) = Inl err"
    and "resolve_api_key e (sv_image_api_key request) ''image_api_key'' = Inr ik
                \<and> resolve_api_key e (or_else (sv_veo_api_key request) (sv_image_api_key request))
                     ''veo_api_key'' = Inr vk"
  then show "snd (create_scene_videos e d request) = Inl err"
    by (simp add: create_scene_videos_def)
next
  fix ik vk refs
  assume "resolve_api_key e (tr_image_api_key tr) ''image_api_key'' = Inr ik
          \<and> resolve_api_key e (or_else (tr_veo_api_key tr) (tr_image_api_key tr)) ''veo_api_key''
               = Inr vk
          \<and> generate_character_references d ik (tr_character_designs tr) = Inr refs"
  then show "SceneVideosCall ik vk (tr_scenes tr) refs \<in> set (fst (generate_trailer e d tr))"
    using trailer_passes_delegate_refs by blast
next
  fix ik vk scs refs
  assume c: "SceneVideosCall ik vk scs refs \<in> set (fst (generate_trailer e d tr))"
  then obtain ik' vk' where
    r1: "resolve_api_key e (tr_image_api_key tr) ''image_api_key'' = Inr ik'"
    and r2: "resolve_api_key e (or_else (tr_veo_api_key tr) (tr_image_api_key tr)) ''veo_api_key''
              = Inr vk'"
    using generate_trailer_no_calls by blast
  have m: "SceneVideosCall ik vk scs refs \<in> set (fst (trailer_body d ik' vk' tr))"
    using c unfolding generate_trailer_calls [OF r1 r2] .
  have "ik = ik'" using trailer_body_calls [OF m] by simp
  then have r: "scs = tr_scenes tr
      \<and> generate_character_references d ik (tr_character_designs tr) = Inr refs"
    using trailer_body_call_refs [OF m] by simp
  show "scs = tr_scenes tr" using r by simp
  show "generate_character_references d ik (tr_character_designs tr) = Inr refs"
    using r by simp
qed

text \<open>
  The claim as stated covers the trailer route as well. There the scene-video delegate
  is called with the map of the character-reference delegate: with a design for \<open>B\<close>
  only and a scene that references \<open>A\<close>, the call is made with a map that lacks \<open>A\<close>,
  and the request fails inside the delegate.
\<close>

theorem trailer_call_lacks_ref:
  "generate_trailer (env_of Missing []) contract_delegates
     \<lparr>tr_character_designs = [\<lparr>character_name = ''B'', image_generation_prompt = ''a robot''\<rparr>],
      tr_scenes = [scene_of 1 [''A'']],
      tr_image_api_key = Some ''k'', tr_veo_api_key = None, tr_stitch_trailer = True\<rparr>
   = ([CharacterReferencesCall (JString ''k'')
         [\<lparr>character_name = ''B'', image_generation_prompt = ''a robot''\<rparr>],
       SceneVideosCall (JString ''k'') (JString ''k'') [scene_of 1 [''A'']]
         [(''B'', ''output/refs/B.png'')]],
      Inl (HTTPException 400 ''scene references an unmapped character''))
   \<and> ''A'' \<in> set (reference_images (scene_of 1 [''A'']))
   \<and> map_of [(''B'', ''output/refs/B.png'')] ''A'' = None"
  by (simp add: generate_trailer_def trailer_body_def resolve_api_key_def or_else_def
        contract_delegates_def scene_of_def env_of_def)

theorem scene_videos_call_has_all_refs_example:
  "fst (create_scene_videos (env_of Missing [''output/refs/A.png'']) contract_delegates
     \<lparr>sv_scenes = [scene_of 1 [''A'']], sv_image_api_key = Some ''k'', sv_veo_api_key = None,
      sv_character_refs = None, sv_autoload_refs = True\<rparr>)
    = [SceneVideosCall (JString ''k'') (JString ''k'') [scene_of 1 [''A'']]
         [(''A'', ''output/refs/A.png'')]]
   \<and> create_scene_videos (env_of Missing []) contract_delegates
     \<lparr>sv_scenes = [scene_of 1 [''A'']], sv_image_api_key = Some ''k'', sv_veo_api_key = None,
      sv_character_refs = Some [(''B'', ''b.png'')], sv_autoload_refs = True\<rparr>
    = ([], Inl (HTTPException 400 ''Missing reference paths for: A''))
   \<and> create_scene_videos (env_name_max Missing []) contract_delegates
     \<lparr>sv_scenes = [scene_of 1 [replicate 252 (CHR ''a'')]], sv_image_api_key = Some ''k'',
      sv_veo_api_key = None, sv_character_refs = None, sv_autoload_refs = True\<rparr>
    = ([], Inl (Uncaught (Exception ''OSError'' ''[Errno 36] File name too long'')))
   \<and> SceneVideosCall (JString ''k'') (JString ''k'') [scene_of 1 [''A'']]
        [(''A'', ''output/refs/A.png'')]
      \<in> set (fst (generate_trailer (env_of Missing []) contract_delegates
           \<lparr>tr_character_designs =
              [\<lparr>character_name = ''A'', image_generation_prompt = ''a robot''\<rparr>],
            tr_scenes = [scene_of 1 [''A'']],
            tr_image_api_key = Some ''k'', tr_veo_api_key = None, tr_stitch_trailer = False\<rparr>))"
proof -
  let ?sv1 = "\<lparr>sv_scenes = [scene_of 1 [''A'']], sv_image_api_key = Some ''k'',
      sv_veo_api_key = None, sv_character_refs = None, sv_autoload_refs = True\<rparr>"
  let ?sv2 = "\<lparr>sv_scenes = [scene_of 1 [''A'']], sv_image_api_key = Some ''k'',
      sv_veo_api_key = None, sv_character_refs = Some [(''B'', ''b.png'')],
      sv_autoload_refs = True\<rparr>"
  let ?sv3 = "\<lparr>sv_scenes = [scene_of 1 [replicate 252 (CHR ''a'')]], sv_image_api_key = Some ''k'',
      sv_veo_api_key = None, sv_character_refs = None, sv_autoload_refs = True\<rparr>"
  let ?tr = "\<lparr>tr_character_designs =
              [\<lparr>character_name = ''A'', image_generation_prompt = ''a robot''\<rparr>],
            tr_scenes = [scene_of 1 [''A'']],
            tr_image_api_key = Some ''k'', tr_veo_api_key = None, tr_stitch_trailer = False\<rparr>"
  have o: "or_else None (Some ''k'') = Some ''k''"
    by (simp add: or_else_def)
  have calls1: "fst (create_scene_videos (env_of Missing [''output/refs/A.png''])
        contract_delegates ?sv1)
      = [SceneVideosCall (JString ''k'') (JString ''k'') [scene_of 1 [''A'']]
           [(''A'', ''output/refs/A.png'')]]"
    by (simp add: create_scene_videos_def o resolve_given_key collect_single ref_path_def
          env_of_def)
  have b2: "build_character_ref_map (env_of Missing []) (sv_scenes ?sv2) (sv_character_refs ?sv2)
        (sv_autoload_refs ?sv2) = Inl (HTTPException 400 ''Missing reference paths for: A'')"
    by (simp add: collect_single)
  have b3: "build_character_ref_map (env_name_max Missing []) (sv_scenes ?sv3)
        (sv_character_refs ?sv3) (sv_autoload_refs ?sv3)
      = Inl (Uncaught (Exception ''OSError'' ''[Errno 36] File name too long''))"
    by (simp add: collect_single exists_name_too_long)
  have keys: "resolve_api_key e (Some ''k'') ''image_api_key'' = Inr (JString ''k'')
      \<and> resolve_api_key e (or_else None (Some ''k'')) ''veo_api_key'' = Inr (JString ''k'')" for e
    by (simp add: o resolve_given_key)
  note t2 = scene_videos_call_has_all_refs
    [of "env_of Missing []" contract_delegates ?sv2, THEN conjunct2, THEN conjunct1,
     THEN spec, THEN mp, OF b2]
  note t3 = scene_videos_call_has_all_refs
    [of "env_name_max Missing []" contract_delegates ?sv3, THEN conjunct2, THEN conjunct1,
     THEN spec, THEN mp, OF b3]
  have r2: "create_scene_videos (env_of Missing []) contract_delegates ?sv2
      = ([], Inl (HTTPException 400 ''Missing reference paths for: A''))"
    using t2 keys [of "env_of Missing []"] by (simp add: prod_eq_iff)
  have r3: "create_scene_videos (env_name_max Missing []) contract_delegates ?sv3
      = ([], Inl (Uncaught (Exception ''OSError'' ''[Errno 36] File name too long'')))"
    using t3 keys [of "env_name_max Missing []"] by (simp add: prod_eq_iff)
  have g: "generate_character_references contract_delegates (JString ''k'')
        (tr_character_designs ?tr) = Inr [(''A'', ''output/refs/A.png'')]"
    by (simp add: contract_delegates_def)
  note t4 = scene_videos_call_has_all_refs
    [where e = "env_of Missing []" and d = contract_delegates and tr = ?tr,
     THEN conjunct2, THEN conjunct2, THEN conjunct1, rule_format,
     of "JString ''k''" "JString ''k''" "[(''A'', ''output/refs/A.png'')]"]
  have r4: "SceneVideosCall (JString ''k'') (JString ''k'') (tr_scenes ?tr)
        [(''A'', ''output/refs/A.png'')]
      \<in> set (fst (generate_trailer (env_of Missing []) contract_delegates ?tr))"
    using t4 keys [of "env_of Missing []"] g by simp
  show ?thesis
    using calls1 r2 r3 r4 by simp
qed

text \<open>
  Claim C5, as amended. In the scene-videos and trailer routes, the video key passed to
  the scene-video delegate is the request's \<^verbatim>\<open>veo_api_key\<close> when that is non-empty,
  and otherwise it is the resolved image key, which is the request's
  \<^verbatim>\<open>image_api_key\<close> when that is non-empty and the secret file's default otherwise.
  The sources are tried in the order \<^verbatim>\<open>veo_api_key\<close>, \<^verbatim>\<open>image_api_key\<close>, secret
  file, and the first one that is there wins.
\<close>

theorem video_key_sources:
  "(SceneVideosCall ik vk scs refs \<in> set (fst (create_scene_videos e d sv)) \<longrightarrow>
      resolve_api_key e (sv_image_api_key sv) ''image_api_key'' = Inr ik
      \<and> vk = (case sv_veo_api_key sv of
                Some k \<Rightarrow> if k \<noteq> [] then JString k else ik
              | None \<Rightarrow> ik)
      \<and> (case sv_image_api_key sv of
           Some k \<Rightarrow> if k \<noteq> [] then ik = JString k else load_default_api_key e = Inr ik
         | None \<Rightarrow> load_default_api_key e = Inr ik))
   \<and> (SceneVideosCall ik vk scs refs \<in> set (fst (generate_trailer e d tr)) \<longrightarrow>
      resolve_api_key e (tr_image_api_key tr) ''image_api_key'' = Inr ik
      \<and> vk = (case tr_veo_api_key tr of
                Some k \<Rightarrow> if k \<noteq> [] then JString k else ik
              | None \<Rightarrow> ik)
      \<and> (case tr_image_api_key tr of
           Some k \<Rightarrow> if k \<noteq> [] then ik = JString k else load_default_api_key e = Inr ik
         | None \<Rightarrow> load_default_api_key e = Inr ik))"
proof (intro conjI impI)
  assume c: "SceneVideosCall ik vk scs refs \<in> set (fst (create_scene_videos e d sv))"
  then have r1: "resolve_api_key e (sv_image_api_key sv) ''image_api_key'' = Inr ik"
    and r2: "resolve_api_key e (or_else (sv_veo_api_key sv) (sv_image_api_key sv)) ''veo_api_key'' = Inr vk"
    using scene_videos_calls [of e d sv] by auto
  show "resolve_api_key e (sv_image_api_key sv) ''image_api_key'' = Inr ik" by (rule r1)
  show "vk = (case sv_veo_api_key sv of
                Some k \<Rightarrow> if k \<noteq> [] then JString k else ik
              | None \<Rightarrow> ik)"
    by (rule resolve_or_else [OF r1 r2])
  show "case sv_image_api_key sv of
           Some k \<Rightarrow> if k \<noteq> [] then ik = JString k else load_default_api_key e = Inr ik
         | None \<Rightarrow> load_default_api_key e = Inr ik"
    by (rule resolve_image_source [OF r1])
next
  assume c: "SceneVideosCall ik vk scs refs \<in> set (fst (generate_trailer e d tr))"
  then obtain ik' vk' where
    r1: "resolve_api_key e (tr_image_api_key tr) ''image_api_key'' = Inr ik'"
    and r2: "resolve_api_key e (or_else (tr_veo_api_key tr) (tr_image_api_key tr)) ''veo_api_key'' = Inr vk'"
    using generate_trailer_no_calls by blast
  have "SceneVideosCall ik vk scs refs \<in> set (fst (trailer_body d ik' vk' tr))"
    using c unfolding generate_trailer_calls [OF r1 r2] .
  then have eq: "ik = ik' \<and> vk = vk'" by (rule trailer_body_calls)
  have q1: "resolve_api_key e (tr_image_api_key tr) ''image_api_key'' = Inr ik"
    using r1 eq by simp
  have q2: "resolve_api_key e (or_else (tr_veo_api_key tr) (tr_image_api_key tr)) ''veo_api_key'' = Inr vk"
    using r2 eq by simp
  show "resolve_api_key e (tr_image_api_key tr) ''image_api_key'' = Inr ik"
    by (rule q1)
  show "vk = (case tr_veo_api_key tr of
                Some k \<Rightarrow> if k \<noteq> [] then JString k else ik
              | None \<Rightarrow> ik)"
    by (rule resolve_or_else [OF q1 q2])
  show "case tr_image_api_key tr of
           Some k \<Rightarrow> if k \<noteq> [] then ik = JString k else load_default_api_key e = Inr ik
         | None \<Rightarrow> load_default_api_key e = Inr ik"
    by (rule resolve_image_source [OF q1])
qed

text \<open>
  The claim as stated lets the video key fall back to the image key only when the secret
  file has no default. With \<^verbatim>\<open>veo_api_key\<close> omitted, \<^verbatim>\<open>image_api_key = "K1"\<close> and a
  secret file whose default is \<open>K2\<close>, both routes pass \<open>K1\<close> as the video key.
\<close>

theorem video_key_prefers_image_override:
  "load_default_api_key (env_of (Decoded (JObject [(''project_api_key'', JString ''K2'')])) [])
     = Inr (JString ''K2'')
   \<and> fst (create_scene_videos (env_of (Decoded (JObject [(''project_api_key'', JString ''K2'')])) [])
        contract_delegates
        \<lparr>sv_scenes = [], sv_image_api_key = Some ''K1'', sv_veo_api_key = None,
         sv_character_refs = None, sv_autoload_refs = True\<rparr>)
     = [SceneVideosCall (JString ''K1'') (JString ''K1'') [] []]
   \<and> fst (generate_trailer (env_of (Decoded (JObject [(''project_api_key'', JString ''K2'')])) [])
        contract_delegates
        \<lparr>tr_character_designs = [], tr_scenes = [], tr_image_api_key = Some ''K1'',
         tr_veo_api_key = None, tr_stitch_trailer = False\<rparr>)
     = [CharacterReferencesCall (JString ''K1'') [],
        SceneVideosCall (JString ''K1'') (JString ''K1'') [] []]"
  by (simp add: create_scene_videos_def generate_trailer_def trailer_body_def resolve_api_key_def
        load_default_api_key_def or_else_def collect_referenced_characters_def
        contract_delegates_def env_of_def)

theorem video_key_sources_example:
  "SceneVideosCall (JString ''K1'') (JString ''V'') [] []
     \<in> set (fst (create_scene_videos (env_of Missing []) contract_delegates
        \<lparr>sv_scenes = [], sv_image_api_key = Some ''K1'', sv_veo_api_key = Some ''V'',
         sv_character_refs = None, sv_autoload_refs = True\<rparr>))
   \<and> SceneVideosCall (JString ''K2'') (JString ''K2'') [] []
     \<in> set (fst (generate_trailer (env_of (Decoded (JObject [(''project_api_key'', JString ''K2'')])) [])
        contract_delegates
        \<lparr>tr_character_designs = [], tr_scenes = [], tr_image_api_key = None,
         tr_veo_api_key = Some [], tr_stitch_trailer = False\<rparr>))
   \<and> resolve_api_key (env_of Missing []) (Some ''K1'') ''image_api_key'' = Inr (JString ''K1'')
   \<and> load_default_api_key (env_of (Decoded (JObject [(''project_api_key'', JString ''K2'')])) [])
       = Inr (JString ''K2'')"
proof -
  have h1: "SceneVideosCall (JString ''K1'') (JString ''V'') [] []
     \<in> set (fst (create_scene_videos (env_of Missing []) contract_delegates
        \<lparr>sv_scenes = [], sv_image_api_key = Some ''K1'', sv_veo_api_key = Some ''V'',
         sv_character_refs = None, sv_autoload_refs = True\<rparr>))"
    by (simp add: create_scene_videos_def resolve_api_key_def or_else_def
          collect_referenced_characters_def contract_delegates_def env_of_def)
  have h2: "SceneVideosCall (JString ''K2'') (JString ''K2'') [] []
     \<in> set (fst (generate_trailer (env_of (Decoded (JObject [(''project_api_key'', JString ''K2'')])) [])
        contract_delegates
        \<lparr>tr_character_designs = [], tr_scenes = [], tr_image_api_key = None,
         tr_veo_api_key = Some [], tr_stitch_trailer = False\<rparr>))"
    by (simp add: generate_trailer_def trailer_body_def resolve_api_key_def
          load_default_api_key_def or_else_def contract_delegates_def env_of_def)
  show ?thesis
    using h1 h2
      video_key_sources [of "JString ''K1''" "JString ''V''" "[]" "[]" "env_of Missing []" contract_delegates
        "\<lparr>sv_scenes = [], sv_image_api_key = Some ''K1'', sv_veo_api_key = Some ''V'',
          sv_character_refs = None, sv_autoload_refs = True\<rparr>"
        "\<lparr>tr_character_designs = [], tr_scenes = [], tr_image_api_key = None,
          tr_veo_api_key = Some [], tr_stitch_trailer = False\<rparr>"]
      video_key_sources [of "JString ''K2''" "JString ''K2''" "[]" "[]"
        "env_of (Decoded (JObject [(''project_api_key'', JString ''K2'')])) []" contract_delegates
        "\<lparr>sv_scenes = [], sv_image_api_key = Some ''K1'', sv_veo_api_key = Some ''V'',
          sv_character_refs = None, sv_autoload_refs = True\<rparr>"
        "\<lparr>tr_character_designs = [], tr_scenes = [], tr_image_api_key = None,
          tr_veo_api_key = Some [], tr_stitch_trailer = False\<rparr>"]
    by simp
qed

text \<open>
  Claim C9. In each of the three generation routes, once the keys are resolved (and, in
  the scene-videos route, the reference map is built), a delegate that raises
  \<^verbatim>\<open>ValueError\<close> makes the handler fail with status 400 and any other exception of a
  delegate makes it fail with status 500; in both cases the detail is the delegate's
  message, unchanged. In the trailer route this holds for each of its three delegate
  calls, the first failure ending the request.
\<close>

theorem delegate_failure_mapping:
  "(\<forall>k f. resolve_api_key e (cr_image_api_key cr) ''image_api_key'' = Inr k
        \<and> generate_character_references d k (cr_character_designs cr) = Inl f
      \<longrightarrow> snd (create_character_references e d cr)
            = Inl (HTTPException (case f of ValueError _ \<Rightarrow> 400 | OtherException _ \<Rightarrow> 500)
                     (message f)))
   \<and> (\<forall>ik vk refs f.
        resolve_api_key e (sv_image_api_key sv) ''image_api_key'' = Inr ik
        \<and> resolve_api_key e (or_else (sv_veo_api_key sv) (sv_image_api_key sv)) ''veo_api_key'' = Inr vk
        \<and> build_character_ref_map e (sv_scenes sv) (sv_character_refs sv) (sv_autoload_refs sv) = Inr refs
        \<and> generate_scene_videos d ik vk (sv_scenes sv) refs = Inl f
      \<longrightarrow> snd (create_scene_videos e d sv)
            = Inl (HTTPException (case f of ValueError _ \<Rightarrow> 400 | OtherException _ \<Rightarrow> 500)
                     (message f)))
   \<and> (\<forall>ik vk f.
        resolve_api_key e (tr_image_api_key tr) ''image_api_key'' = Inr ik
        \<and> resolve_api_key e (or_else (tr_veo_api_key tr) (tr_image_api_key tr)) ''veo_api_key'' = Inr vk
        \<and> (generate_character_references d ik (tr_character_designs tr) = Inl f
           \<or> (\<exists>refs. generate_character_references d ik (tr_character_designs tr) = Inr refs
                \<and> (generate_scene_videos d ik vk (tr_scenes tr) refs = Inl f
                   \<or> (\<exists>paths. generate_scene_videos d ik vk (tr_scenes tr) refs = Inr paths
                        \<and> tr_stitch_trailer tr \<and> stitch_videos d paths = Inl f))))
      \<longrightarrow> snd (generate_trailer e d tr)
            = Inl (HTTPException (case f of ValueError _ \<Rightarrow> 400 | OtherException _ \<Rightarrow> 500)
                     (message f)))"
proof (intro conjI allI impI)
  fix k f
  assume "resolve_api_key e (cr_image_api_key cr) ''image_api_key'' = Inr k
        \<and> generate_character_references d k (cr_character_designs cr) = Inl f"
  then show "snd (create_character_references e d cr)
            = Inl (HTTPException (case f of ValueError _ \<Rightarrow> 400 | OtherException _ \<Rightarrow> 500)
                     (message f))"
    by (cases f) (simp_all add: create_character_references_def)
next
  fix ik vk refs f
  assume "resolve_api_key e (sv_image_api_key sv) ''image_api_key'' = Inr ik
        \<and> resolve_api_key e (or_else (sv_veo_api_key sv) (sv_image_api_key sv)) ''veo_api_key'' = Inr vk
        \<and> build_character_ref_map e (sv_scenes sv) (sv_character_refs sv) (sv_autoload_refs sv) = Inr refs
        \<and> generate_scene_videos d ik vk (sv_scenes sv) refs = Inl f"
  then show "snd (create_scene_videos e d sv)
            = Inl (HTTPException (case f of ValueError _ \<Rightarrow> 400 | OtherException _ \<Rightarrow> 500)
                     (message f))"
    by (cases f) (simp_all add: create_scene_videos_def)
next
  fix ik vk f
  assume a: "resolve_api_key e (tr_image_api_key tr) ''image_api_key'' = Inr ik
        \<and> resolve_api_key e (or_else (tr_veo_api_key tr) (tr_image_api_key tr)) ''veo_api_key'' = Inr vk
        \<and> (generate_character_references d ik (tr_character_designs tr) = Inl f
           \<or> (\<exists>refs. generate_character_references d ik (tr_character_designs tr) = Inr refs
                \<and> (generate_scene_videos d ik vk (tr_scenes tr) refs = Inl f
                   \<or> (\<exists>paths. generate_scene_videos d ik vk (tr_scenes tr) refs = Inr paths
                        \<and> tr_stitch_trailer tr \<and> stitch_videos d paths = Inl f))))"
  then have "snd (trailer_body d ik vk tr) = Inl f"
    by (auto simp: trailer_body_def Let_def)
  then show "snd (generate_trailer e d tr)
            = Inl (HTTPException (case f of ValueError _ \<Rightarrow> 400 | OtherException _ \<Rightarrow> 500)
                     (message f))"
    using a generate_trailer_result by blast
qed

theorem delegate_failure_mapping_example:
  "snd (create_character_references (env_of Missing [])
          (failing_delegates (ValueError ''empty prompt''))
          \<lparr>cr_character_designs = [], cr_image_api_key = Some ''k''\<rparr>)
     = Inl (HTTPException 400 ''empty prompt'')
   \<and> snd (create_scene_videos (env_of Missing [])
          (failing_delegates (OtherException ''quota exceeded''))
          \<lparr>sv_scenes = [], sv_image_api_key = Some ''k'', sv_veo_api_key = None,
           sv_character_refs = None, sv_autoload_refs = True\<rparr>)
     = Inl (HTTPException 500 ''quota exceeded'')
   \<and> snd (generate_trailer (env_of Missing []) contract_delegates
          \<lparr>tr_character_designs = [], tr_scenes = [], tr_image_api_key = Some ''k'',
           tr_veo_api_key = None, tr_stitch_trailer = True\<rparr>)
     = Inl (HTTPException 500 ''no videos to stitch'')"
  using delegate_failure_mapping [of "env_of Missing []" "\<lparr>cr_character_designs = [], cr_image_api_key = Some ''k''\<rparr>"
              "failing_delegates (ValueError ''empty prompt'')"
              "\<lparr>sv_scenes = [], sv_image_api_key = Some ''k'', sv_veo_api_key = None,
                sv_character_refs = None, sv_autoload_refs = True\<rparr>"
              "\<lparr>tr_character_designs = [], tr_scenes = [], tr_image_api_key = Some ''k'',
                tr_veo_api_key = None, tr_stitch_trailer = True\<rparr>"]
    delegate_failure_mapping [of "env_of Missing []" "\<lparr>cr_character_designs = [], cr_image_api_key = Some ''k''\<rparr>"
              "failing_delegates (OtherException ''quota exceeded'')"
              "\<lparr>sv_scenes = [], sv_image_api_key = Some ''k'', sv_veo_api_key = None,
                sv_character_refs = None, sv_autoload_refs = True\<rparr>"
              "\<lparr>tr_character_designs = [], tr_scenes = [], tr_image_api_key = Some ''k'',
                tr_veo_api_key = None, tr_stitch_trailer = True\<rparr>"]
    delegate_failure_mapping [of "env_of Missing []" "\<lparr>cr_character_designs = [], cr_image_api_key = Some ''k''\<rparr>"
              contract_delegates
              "\<lparr>sv_scenes = [], sv_image_api_key = Some ''k'', sv_veo_api_key = None,
                sv_character_refs = None, sv_autoload_refs = True\<rparr>"
              "\<lparr>tr_character_designs = [], tr_scenes = [], tr_image_api_key = Some ''k'',
                tr_veo_api_key = None, tr_stitch_trailer = True\<rparr>"]
  by (simp add: resolve_api_key_def or_else_def collect_referenced_characters_def
        failing_delegates_def contract_delegates_def env_of_def)

end
